theory Spec2Isabelle
  imports Complex_Main
begin

section \<open>Data model of the server (src/server.js)\<close>

text \<open>
  JavaScript numbers are modelled as follows: counters that the program only ever
  increments, decrements or resets (ids, tick count, wave, lives, the integer upgrade
  modifiers, millisecond clock readings of \<^verbatim>\<open>Date.now()\<close>) are \<open>nat\<close> or \<open>int\<close>;
  coordinates, hit points, spawn weights and \<^verbatim>\<open>performance.now()\<close> readings are \<open>real\<close>.
  \<^verbatim>\<open>Math.hypot\<close>, \<^verbatim>\<open>Math.pow\<close> and the four arithmetic operations are the exact real
  operations, so rounding of IEEE doubles is outside the model.

  A \<^verbatim>\<open>Map\<close> iterates in insertion order and every entity is stored under its own id, so a
  map is the list of its values in insertion order.
\<close>

datatype phase = Playing | CardSelection | GameOver

datatype card =
  Critical | Piercing | AreaDamage | BulletCount | Pusher | ExtraLife | Ignition | Melee
  | BouncyBullets

datatype btype = Normal | Fast | Big

text \<open>Every entity object carries \<^verbatim>\<open>id\<close>, \<^verbatim>\<open>x\<close> and \<^verbatim>\<open>y\<close>.\<close>

record entity =
  ent_id :: nat
  ent_x :: real
  ent_y :: real

record keystate =
  key_left :: bool
  key_right :: bool
  key_up :: bool
  key_down :: bool

text \<open>
  \<^verbatim>\<open>offeredCards\<close> is \<^verbatim>\<open>undefined\<close> or \<^verbatim>\<open>null\<close> (here \<open>None\<close>) or an array of cards;
  \<^verbatim>\<open>cardSelected\<close> is only ever tested for truthiness, so \<^verbatim>\<open>undefined\<close> is \<open>False\<close>.
  The modifiers are set on connection and never deleted, so the \<^verbatim>\<open>??\<close> defaults on
  them are never taken.
\<close>

record player = entity +
  criticalChance :: int
  pierceChance :: int
  areaDamageLevel :: int
  bulletCount :: int
  pusherChance :: int
  ignitionChance :: int
  meleeDamage :: int
  bounceCount :: int
  keys :: keystate
  offeredCards :: "card list option"
  cardSelected :: bool

text \<open>Optional bullet properties are \<open>option\<close>s; an absent \<^verbatim>\<open>homing\<close> is \<open>False\<close>.\<close>

record bullet = entity +
  ownerId :: "nat option"
  radius :: real
  vx :: "real option"
  vy :: "real option"
  bouncesLeft :: "int option"
  homing :: bool
  targetBallId :: "nat option"
  damage :: "int option"
  tmp_moveX :: "real option"
  tmp_moveY :: "real option"

record ball = entity +
  ball_type :: btype
  hp :: real
  maxHp :: real
  speed :: real
  ball_radius :: real
  burnEndTick :: "int option"

record balldef =
  def_hp :: real
  def_speed :: real
  spawnRate :: real
  waveWeight :: real

text \<open>
  The module-level variables. \<open>rngPos\<close> is not a variable of the program: it counts the
  calls of \<^verbatim>\<open>Math.random()\<close> made so far, so that the \<open>k\<close>-th call reads the \<open>k\<close>-th value
  of a given sequence. The last four fields are the local constants of \<^verbatim>\<open>gameTick\<close>
  (202--205), which every tick creates empty; \<^verbatim>\<open>Set.add\<close> is \<open>set_add\<close> below.
\<close>

record game =
  players :: "player list"
  bullets :: "bullet list"
  balls :: "ball list"
  nextBulletId :: nat
  nextBallId :: nat
  tickCount :: int
  gameStarted :: bool
  gamePhase :: phase
  wave :: int
  waveWeightSpawned :: real
  lastSpawnTick :: int
  cardSelectionEndTime :: int
  lives :: int
  rngPos :: nat
  toRemoveBullets :: "nat list"
  toRemoveBalls :: "nat list"
  areaDamageHits :: "(real \<times> real) list"
  bulletHits :: "(real \<times> real) list"

definition TICK_RATE :: int where "TICK_RATE = 15"
definition ROOM_WIDTH :: real where "ROOM_WIDTH = 720"
definition ROOM_HEIGHT :: real where "ROOM_HEIGHT = 1280"
definition PLAYER_RADIUS :: real where "PLAYER_RADIUS = 20"
definition PLAYER_SPEED :: real where "PLAYER_SPEED = 16"
definition BULLET_DAMAGE :: real where "BULLET_DAMAGE = 1"
definition BULLET_RADIUS :: real where "BULLET_RADIUS = 6"
definition BULLET_SPEED :: real where "BULLET_SPEED = 75"
definition CARD_SELECTION_MS :: int where "CARD_SELECTION_MS = 15000"
definition INITIAL_LIVES :: int where "INITIAL_LIVES = 10"
definition AREA_DAMAGE_RADIUS :: real where "AREA_DAMAGE_RADIUS = 100"
definition PUSHER_STRENGTH :: real where "PUSHER_STRENGTH = 5"
definition BURN_DURATION_TICKS :: int where "BURN_DURATION_TICKS = 5 * TICK_RATE"
definition MELEE_RANGE :: real where "MELEE_RANGE = 200"
definition MELEE_BULLET_INTERVAL :: int where "MELEE_BULLET_INTERVAL = 4"

fun BALL_TYPES :: "btype \<Rightarrow> balldef" where
  "BALL_TYPES Normal = \<lparr>def_hp = 20, def_speed = 7, spawnRate = 3, waveWeight = 0.5\<rparr>"
| "BALL_TYPES Fast = \<lparr>def_hp = 14, def_speed = 10, spawnRate = 2, waveWeight = 1\<rparr>"
| "BALL_TYPES Big = \<lparr>def_hp = 160, def_speed = 3, spawnRate = 1, waveWeight = 2\<rparr>"

definition BALL_TYPE_KEYS :: "btype list" where
  "BALL_TYPE_KEYS = [Normal, Fast, Big]"

text \<open>Only the \<^verbatim>\<open>id\<close> of a card type is ever read by the server.\<close>

definition CARD_TYPES :: "card list" where
  "CARD_TYPES =
     [Critical, Piercing, AreaDamage, BulletCount, Pusher, ExtraLife, Ignition, Melee,
      BouncyBullets]"

subsection \<open>JavaScript primitives\<close>

text \<open>\<^verbatim>\<open>xs[i]\<close> for an integer \<open>i\<close>: \<^verbatim>\<open>undefined\<close> (here \<open>None\<close>) outside the array.\<close>

definition js_index :: "'a list \<Rightarrow> int \<Rightarrow> 'a option" where
  "js_index xs i = (if 0 \<le> i \<and> i < int (length xs) then Some (xs ! nat i) else None)"

definition hypot :: "real \<Rightarrow> real \<Rightarrow> real" where
  "hypot a b = sqrt (a * a + b * b)"

text \<open>
  \<^verbatim>\<open>Math.random()\<close> returns a number in \<open>[0, 1)\<close>. The \<open>k\<close>-th call reads \<open>rnd k\<close>; a
  sequence value outside \<open>[0, 1)\<close> is read as \<open>0\<close>, so every sequence is a legal run of
  the generator.
\<close>

definition Math_random :: "(nat \<Rightarrow> real) \<Rightarrow> nat \<Rightarrow> real" where
  "Math_random rnd k = (if 0 \<le> rnd k \<and> rnd k < 1 then rnd k else 0)"

text \<open>\<^verbatim>\<open>Map.get\<close> and the update of the object stored under an id.\<close>

definition map_get :: "('a entity_scheme) list \<Rightarrow> nat \<Rightarrow> ('a entity_scheme) option" where
  "map_get m k = find (\<lambda>e. ent_id e = k) m"

definition map_modify ::
  "nat \<Rightarrow> ('a entity_scheme \<Rightarrow> 'a entity_scheme) \<Rightarrow> ('a entity_scheme) list
     \<Rightarrow> ('a entity_scheme) list" where
  "map_modify k f m = map (\<lambda>e. if ent_id e = k then f e else e) m"

section \<open>resetGame (src/server.js, 122--147)\<close>

definition resetPlayer :: "player \<Rightarrow> player" where
  "resetPlayer p =
     p\<lparr>ent_x := ROOM_WIDTH / 2, ent_y := ROOM_HEIGHT - 80,
       criticalChance := 0, pierceChance := 0, areaDamageLevel := 0, bulletCount := 1,
       pusherChance := 0, ignitionChance := 0, meleeDamage := 0, bounceCount := 0,
       offeredCards := None, cardSelected := False\<rparr>"

definition resetGame :: "game \<Rightarrow> game" where
  "resetGame s =
     s\<lparr>bullets := [], balls := [], nextBulletId := 1, nextBallId := 1, tickCount := 0,
       wave := 1, waveWeightSpawned := 0, lastSpawnTick := 0, lives := INITIAL_LIVES,
       players := map resetPlayer (players s), gamePhase := Playing\<rparr>"

text \<open>The \<^verbatim>\<open>restartGame\<close> handler (403--407); \<^verbatim>\<open>lastActivity\<close> is not modelled.\<close>

definition restartGame :: "game \<Rightarrow> game" where
  "restartGame s = (resetGame s)\<lparr>gameStarted := True\<rparr>"

section \<open>The selectCard handler (src/server.js, 409--423)\<close>

text \<open>
  The handler receives whatever the client sent as \<^verbatim>\<open>cardIndex\<close>: a number, a string, or
  another value (\<^verbatim>\<open>null\<close>, a boolean, a plain object, nothing), here \<open>POther\<close>, whose
  property key names no property of an array. (An array payload acts as the string of
  its elements joined by commas.)
\<close>

datatype payload = PNumber real | PString string | POther

text \<open>
  What \<^verbatim>\<open>player.offeredCards[cardIndex]\<close> evaluates to: \<^verbatim>\<open>undefined\<close>, one of the card
  objects, the number that is the array's \<^verbatim>\<open>length\<close>, or a property the array inherits
  from its prototypes (\<^verbatim>\<open>map\<close>, \<^verbatim>\<open>constructor\<close>, ...), which is a function or an object.
\<close>

datatype js_value = Undefined | CardObject card | NumberValue nat | Inherited

text \<open>
  A string is an array index when it is the decimal numeral of a natural number without
  a leading zero.
\<close>

definition digitValue :: "char \<Rightarrow> nat" where
  "digitValue c = of_char c - 48"

definition isDigit :: "char \<Rightarrow> bool" where
  "isDigit c \<longleftrightarrow> (48 :: nat) \<le> of_char c \<and> of_char c \<le> (57 :: nat)"

definition arrayIndexOfKey :: "string \<Rightarrow> nat option" where
  "arrayIndexOfKey key =
     (if key \<noteq> [] \<and> list_all isDigit key \<and> (length key = 1 \<or> hd key \<noteq> CHR ''0'')
      then Some (foldl (\<lambda>n c. 10 * n + digitValue c) 0 key)
      else None)"

definition js_element :: "card list \<Rightarrow> int \<Rightarrow> js_value" where
  "js_element xs i = (case js_index xs i of None \<Rightarrow> Undefined | Some c \<Rightarrow> CardObject c)"

text \<open>
  The property lookup. The names that the prototypes of an array define belong to the
  JavaScript runtime, not to this program, so they are the parameter \<open>proto\<close>.
\<close>

definition js_member :: "(string \<Rightarrow> bool) \<Rightarrow> card list \<Rightarrow> payload \<Rightarrow> js_value" where
  "js_member proto xs k =
     (case k of
        PNumber r \<Rightarrow> if r = of_int \<lfloor>r\<rfloor> then js_element xs \<lfloor>r\<rfloor> else Undefined
      | PString key \<Rightarrow>
          (case arrayIndexOfKey key of
             Some n \<Rightarrow> js_element xs (int n)
           | None \<Rightarrow>
               if key = ''length'' then NumberValue (length xs)
               else if proto key then Inherited else Undefined)
      | POther \<Rightarrow> Undefined)"

text \<open>\<^verbatim>\<open>!card\<close>.\<close>

definition falsy :: "js_value \<Rightarrow> bool" where
  "falsy v \<longleftrightarrow> v = Undefined \<or> v = NumberValue 0"

text \<open>
  The handler closes over the \<^verbatim>\<open>player\<close> object of its socket, which is the object stored
  in \<^verbatim>\<open>players\<close> under the socket's id until the socket disconnects; a disconnected socket
  delivers no events, so a request for an id that is not connected leaves the state as it
  is. The handler has no return value and emits nothing: its whole effect is the new
  state. Only a card object has an \<^verbatim>\<open>id\<close> that one of the comparisons of lines 414--422
  matches.
\<close>

fun applyCard :: "card \<Rightarrow> player \<Rightarrow> player" where
  "applyCard Critical p = p\<lparr>criticalChance := criticalChance p + 10\<rparr>"
| "applyCard Piercing p = p\<lparr>pierceChance := pierceChance p + 10\<rparr>"
| "applyCard AreaDamage p = p\<lparr>areaDamageLevel := areaDamageLevel p + 1\<rparr>"
| "applyCard BulletCount p = p\<lparr>bulletCount := bulletCount p + 1\<rparr>"
| "applyCard Pusher p = p\<lparr>pusherChance := pusherChance p + 5\<rparr>"
| "applyCard ExtraLife p = p"
| "applyCard Ignition p = p\<lparr>ignitionChance := ignitionChance p + 1\<rparr>"
| "applyCard Melee p = p\<lparr>meleeDamage := meleeDamage p + 1\<rparr>"
| "applyCard BouncyBullets p = p\<lparr>bounceCount := bounceCount p + 1\<rparr>"

definition selectCard :: "(string \<Rightarrow> bool) \<Rightarrow> nat \<Rightarrow> payload \<Rightarrow> game \<Rightarrow> game" where
  "selectCard proto pid cardIndex s =
     (case map_get (players s) pid of
        None \<Rightarrow> s
      | Some player \<Rightarrow>
          (case offeredCards player of
             None \<Rightarrow> s
           | Some offered \<Rightarrow>
               if gamePhase s \<noteq> CardSelection \<or> cardSelected player then s
               else (let chosen = js_member proto offered cardIndex
                     in if falsy chosen then s
                        else (case chosen of
                                CardObject c \<Rightarrow>
                                  s\<lparr>players :=
                                      map_modify pid
                                        (\<lambda>p. applyCard c (p\<lparr>cardSelected := True\<rparr>))
                                        (players s),
                                    lives :=
                                      (if c = ExtraLife then lives s + 1 else lives s)\<rparr>
                              | _ \<Rightarrow>
                                  s\<lparr>players :=
                                      map_modify pid (\<lambda>p. p\<lparr>cardSelected := True\<rparr>)
                                        (players s)\<rparr>))))"

section \<open>Spawning (src/server.js, 70--98)\<close>

fun pickLoop :: "real \<Rightarrow> btype list \<Rightarrow> btype" where
  "pickLoop r [] = BALL_TYPE_KEYS ! 0"
| "pickLoop r (t # ts) =
     (let r' = r - spawnRate (BALL_TYPES t) in if r' \<le> 0 then t else pickLoop r' ts)"

definition pickBallType :: "real \<Rightarrow> btype" where
  "pickBallType u =
     (let total = foldl (\<lambda>s k. s + spawnRate (BALL_TYPES k)) 0 BALL_TYPE_KEYS
      in pickLoop (u * total) BALL_TYPE_KEYS)"

text \<open>
  \<^verbatim>\<open>spawnBall()\<close> is only called without an argument: the type is drawn first, then the
  horizontal position. It returns the type and the new state.
\<close>

definition spawnBall :: "(nat \<Rightarrow> real) \<Rightarrow> game \<Rightarrow> btype \<times> game" where
  "spawnBall rnd s =
     (let ty = pickBallType (Math_random rnd (rngPos s));
          def = BALL_TYPES ty;
          r = (if ty = Big then 70 else if ty = Fast then 30 else 44);
          b = \<lparr>ent_id = nextBallId s,
               ent_x = Math_random rnd (rngPos s + 1) * (ROOM_WIDTH - r * 2) + r,
               ent_y = - r - 10,
               ball_type = ty, hp = def_hp def, maxHp = def_hp def, speed = def_speed def,
               ball_radius = r, burnEndTick = None\<rparr>
      in (ty, s\<lparr>balls := balls s @ [b], nextBallId := nextBallId s + 1,
                rngPos := rngPos s + 2\<rparr>))"

section \<open>Swept collision test (src/server.js, 100--120)\<close>

definition pointToSegmentDist ::
  "real \<Rightarrow> real \<Rightarrow> real \<Rightarrow> real \<Rightarrow> real \<Rightarrow> real \<Rightarrow> real" where
  "pointToSegmentDist px py x1 y1 x2 y2 =
     (let dx = x2 - x1; dy = y2 - y1; lenSq = dx * dx + dy * dy
      in if lenSq = 0 then hypot (px - x1) (py - y1)
         else let t0 = ((px - x1) * dx + (py - y1) * dy) / lenSq;
                  t = max 0 (min 1 t0);
                  nearestX = x1 + t * dx;
                  nearestY = y1 + t * dy
              in hypot (px - nearestX) (py - nearestY))"

definition bulletHitsBall :: "bullet \<Rightarrow> ball \<Rightarrow> real \<Rightarrow> real \<Rightarrow> bool" where
  "bulletHitsBall b c moveX moveY =
     (let nextX = ent_x b + moveX; nextY = ent_y b + moveY;
          dist = pointToSegmentDist (ent_x c) (ent_y c) (ent_x b) (ent_y b) nextX nextY
      in dist \<le> radius b + ball_radius c)"

section \<open>gameTick (src/server.js, 149--373)\<close>

definition set_add :: "nat \<Rightarrow> nat list \<Rightarrow> nat list" where
  "set_add k ks = (if k \<in> set ks then ks else ks @ [k])"

subsection \<open>Phase transitions (152--189)\<close>

definition checkGameOver :: "game \<Rightarrow> game" where
  "checkGameOver s =
     (if lives s \<le> 0 \<and> gamePhase s = Playing then s\<lparr>gamePhase := GameOver\<rparr> else s)"

definition maxWeight :: "int \<Rightarrow> real" where
  "maxWeight w = 20 * power_int 1.1 (w - 1)"

definition spawnIntervalTicks :: "int \<Rightarrow> int" where
  "spawnIntervalTicks w = max 1 \<lfloor>real_of_int TICK_RATE * power_int 0.9 (w - 1)\<rfloor>"

definition offerCards :: "(nat \<Rightarrow> real) \<Rightarrow> nat \<Rightarrow> player \<Rightarrow> player" where
  "offerCards rnd k p =
     p\<lparr>offeredCards :=
         Some (map (\<lambda>i. CARD_TYPES
                      ! nat \<lfloor>Math_random rnd (k + i) * real (length CARD_TYPES)\<rfloor>)
                 [0..<3]),
       cardSelected := False\<rparr>"

fun offerAll :: "(nat \<Rightarrow> real) \<Rightarrow> nat \<Rightarrow> player list \<Rightarrow> player list" where
  "offerAll rnd k [] = []"
| "offerAll rnd k (p # ps) = offerCards rnd k p # offerAll rnd (k + 3) ps"

text \<open>Lines 156--162: at most one ball is spawned per tick.\<close>

definition trySpawn :: "(nat \<Rightarrow> real) \<Rightarrow> game \<Rightarrow> game" where
  "trySpawn rnd s =
     (let canSpawn = waveWeightSpawned s < maxWeight (wave s);
          timeToSpawn = tickCount s - lastSpawnTick s \<ge> spawnIntervalTicks (wave s)
      in if canSpawn \<and> timeToSpawn
         then (case spawnBall rnd s of
                 (ty, s') \<Rightarrow>
                   s'\<lparr>waveWeightSpawned := waveWeightSpawned s' + waveWeight (BALL_TYPES ty),
                      lastSpawnTick := tickCount s'\<rparr>)
         else s)"

text \<open>Lines 164--174; \<open>now\<close> is the reading of \<^verbatim>\<open>Date.now()\<close> at line 166.\<close>

definition enterCardSelection :: "(nat \<Rightarrow> real) \<Rightarrow> int \<Rightarrow> game \<Rightarrow> game" where
  "enterCardSelection rnd now s =
     (if waveWeightSpawned s \<ge> maxWeight (wave s) \<and> length (balls s) = 0
         \<and> gamePhase s = Playing
      then s\<lparr>gamePhase := CardSelection,
             cardSelectionEndTime := now + CARD_SELECTION_MS,
             players := offerAll rnd (rngPos s) (players s),
             rngPos := rngPos s + 3 * length (players s)\<rparr>
      else s)"

text \<open>Lines 153--175.\<close>

definition waveStep :: "(nat \<Rightarrow> real) \<Rightarrow> int \<Rightarrow> game \<Rightarrow> game" where
  "waveStep rnd now s =
     (if gameStarted s \<and> gamePhase s = Playing \<and> lives s > 0
      then enterCardSelection rnd now (trySpawn rnd s)
      else s)"

text \<open>Lines 176--189; \<open>now\<close> is the reading of \<^verbatim>\<open>Date.now()\<close> at line 179.\<close>

definition endCardSelection :: "int \<Rightarrow> game \<Rightarrow> game" where
  "endCardSelection now s =
     (if gamePhase s = CardSelection
      then (let allSelected = list_all cardSelected (players s);
                timeout = now \<ge> cardSelectionEndTime s
            in if allSelected \<or> timeout
               then s\<lparr>gamePhase := Playing, wave := wave s + 1, waveWeightSpawned := 0,
                      players :=
                        map (\<lambda>p. p\<lparr>offeredCards := None, cardSelected := False\<rparr>)
                          (players s)\<rparr>
               else s)
      else s)"

subsection \<open>Player input (191--199)\<close>

definition movePlayer :: "player \<Rightarrow> player" where
  "movePlayer p =
     (let p1 = (if key_left (keys p)
                then p\<lparr>ent_x := max PLAYER_RADIUS (ent_x p - PLAYER_SPEED)\<rparr> else p);
          p2 = (if key_right (keys p1)
                then p1\<lparr>ent_x := min (ROOM_WIDTH - PLAYER_RADIUS) (ent_x p1 + PLAYER_SPEED)\<rparr>
                else p1);
          p3 = (if key_up (keys p2)
                then p2\<lparr>ent_y := max PLAYER_RADIUS (ent_y p2 - PLAYER_SPEED)\<rparr> else p2)
      in if key_down (keys p3)
         then p3\<lparr>ent_y := min (ROOM_HEIGHT - PLAYER_RADIUS) (ent_y p3 + PLAYER_SPEED)\<rparr>
         else p3)"

definition processInput :: "game \<Rightarrow> game" where
  "processInput s =
     (if gamePhase s \<noteq> GameOver then s\<lparr>players := map movePlayer (players s)\<rparr> else s)"

subsection \<open>Bullets against balls (201--253)\<close>

text \<open>
  Both loops run over a map whose entries are changed in place and never added or
  removed while the loop runs, so they run over the positions of the list and read the
  current entry at each position. \<open>roll\<close> is \<^verbatim>\<open>Math.random() * 100\<close>; \<open>drawn\<close>
  records that the call was made.
\<close>

definition roll :: "(nat \<Rightarrow> real) \<Rightarrow> game \<Rightarrow> real" where
  "roll rnd s = Math_random rnd (rngPos s) * 100"

definition drawn :: "game \<Rightarrow> game" where
  "drawn s = s\<lparr>rngPos := rngPos s + 1\<rparr>"

text \<open>\<^verbatim>\<open>owner?.field ?? 0\<close>.\<close>

definition ownerMod :: "(player \<Rightarrow> int) \<Rightarrow> player option \<Rightarrow> int" where
  "ownerMod f owner = (case owner of None \<Rightarrow> 0 | Some p \<Rightarrow> f p)"

definition markBall :: "ball \<Rightarrow> game \<Rightarrow> game" where
  "markBall b s =
     (if hp b \<le> 0 then s\<lparr>toRemoveBalls := set_add (ent_id b) (toRemoveBalls s)\<rparr> else s)"

text \<open>Lines 242--247, for the ball at position \<open>j\<close>; \<open>c\<close> is the ball that was hit.\<close>

definition areaHit :: "ball \<Rightarrow> real \<Rightarrow> nat \<Rightarrow> game \<Rightarrow> game" where
  "areaHit c areaDmg j s =
     (let b = balls s ! j
      in if ent_id b \<noteq> ent_id c
            \<and> hypot (ent_x b - ent_x c) (ent_y b - ent_y c) \<le> AREA_DAMAGE_RADIUS
         then (let b' = b\<lparr>hp := hp b - areaDmg\<rparr>
               in markBall b' (s\<lparr>balls := (balls s)[j := b']\<rparr>))
         else s)"

text \<open>
  Lines 230--249, for the ball at position \<open>i\<close>, one definition per statement. The ball
  object is changed in place, so each step reads and writes position \<open>i\<close> of the list.
\<close>

definition modBall :: "nat \<Rightarrow> (ball \<Rightarrow> ball) \<Rightarrow> game \<Rightarrow> game" where
  "modBall i f s = s\<lparr>balls := (balls s)[i := f (balls s ! i)]\<rparr>"

definition markBullet :: "bullet \<Rightarrow> game \<Rightarrow> game" where
  "markBullet b s = s\<lparr>toRemoveBullets := set_add (ent_id b) (toRemoveBullets s)\<rparr>"

definition damageStep ::
  "(nat \<Rightarrow> real) \<Rightarrow> bullet \<Rightarrow> real \<Rightarrow> player option \<Rightarrow> nat \<Rightarrow> game \<Rightarrow> game" where
  "damageStep rnd b dmg0 owner i s =
     (let crit = (\<not> homing b \<and> roll rnd s < real_of_int (ownerMod criticalChance owner));
          s1 = (if homing b then s else drawn s);
          dmg = (if crit then dmg0 * 2 else dmg0);
          s2 = modBall i (\<lambda>c. c\<lparr>hp := hp c - dmg\<rparr>) s1
      in markBall (balls s2 ! i) s2)"

definition pushStep :: "(nat \<Rightarrow> real) \<Rightarrow> bullet \<Rightarrow> player option \<Rightarrow> nat \<Rightarrow> game \<Rightarrow> game" where
  "pushStep rnd b owner i s =
     (if homing b then s
      else if roll rnd s < real_of_int (ownerMod pusherChance owner)
           then modBall i (\<lambda>c. c\<lparr>ent_y := ent_y c - PUSHER_STRENGTH\<rparr>) (drawn s)
           else drawn s)"

definition igniteStep ::
  "(nat \<Rightarrow> real) \<Rightarrow> bullet \<Rightarrow> player option \<Rightarrow> nat \<Rightarrow> game \<Rightarrow> game" where
  "igniteStep rnd b owner i s =
     (if \<not> homing b \<and> ownerMod ignitionChance owner > 0
      then if roll rnd s < real_of_int (ownerMod ignitionChance owner)
           then modBall i (\<lambda>c. c\<lparr>burnEndTick := Some (tickCount s + BURN_DURATION_TICKS)\<rparr>)
                  (drawn s)
           else drawn s
      else s)"

definition spendStep :: "(nat \<Rightarrow> real) \<Rightarrow> bullet \<Rightarrow> player option \<Rightarrow> game \<Rightarrow> game" where
  "spendStep rnd b owner s =
     (if homing b then markBullet b s
      else if roll rnd s \<ge> real_of_int (ownerMod pierceChance owner)
           then markBullet b (drawn s)
           else drawn s)"

definition areaStep :: "bullet \<Rightarrow> player option \<Rightarrow> nat \<Rightarrow> game \<Rightarrow> game" where
  "areaStep b owner i s =
     (if \<not> homing b \<and> ownerMod areaDamageLevel owner > 0
      then (let areaDmg =
                  BULLET_DAMAGE * 0.1 * power_int 1.1 (ownerMod areaDamageLevel owner - 1);
                c = balls s ! i;
                s1 = s\<lparr>areaDamageHits := areaDamageHits s @ [(ent_x c, ent_y c)]\<rparr>
            in foldl (\<lambda>t j. areaHit c areaDmg j t) s1 [0..<length (balls s1)])
      else s)"

definition hitBall ::
  "(nat \<Rightarrow> real) \<Rightarrow> bullet \<Rightarrow> real \<Rightarrow> real \<Rightarrow> real \<Rightarrow> player option \<Rightarrow> nat \<Rightarrow> game
     \<Rightarrow> game" where
  "hitBall rnd b moveX moveY dmg0 owner i s =
     (let c = balls s ! i
      in if bulletHitsBall b c moveX moveY
         then areaStep b owner i
                (spendStep rnd b owner
                  (igniteStep rnd b owner i
                    (pushStep rnd b owner i
                      (damageStep rnd b dmg0 owner i
                        (s\<lparr>bulletHits := bulletHits s @ [(ent_x c, ent_y c)]\<rparr>)))))
         else s)"

text \<open>Lines 206--253, for the bullet at position \<open>bi\<close>.\<close>

definition collideBullet :: "(nat \<Rightarrow> real) \<Rightarrow> nat \<Rightarrow> game \<Rightarrow> game" where
  "collideBullet rnd bi s =
     (let b = bullets s ! bi;
          scan = (\<lambda>moveX moveY dmg0 owner.
                    let s' = foldl (\<lambda>t i. hitBall rnd b moveX moveY dmg0 owner i t) s
                               [0..<length (balls s)]
                    in s'\<lparr>bullets :=
                           (bullets s')[bi := (bullets s' ! bi)
                              \<lparr>tmp_moveX := Some moveX, tmp_moveY := Some moveY\<rparr>]\<rparr>)
      in if homing b
         then (case (case targetBallId b of None \<Rightarrow> None
                      | Some tid \<Rightarrow> map_get (balls s) tid) of
                 None \<Rightarrow> markBullet b s
               | Some target \<Rightarrow>
                   let dx = ent_x target - ent_x b;
                       dy = ent_y target - ent_y b;
                       len = (if hypot dx dy = 0 then 1 else hypot dx dy)
                   in scan ((dx / len) * BULLET_SPEED) ((dy / len) * BULLET_SPEED)
                        (case damage b of None \<Rightarrow> 1 | Some d \<Rightarrow> real_of_int d) None)
         else scan (case vx b of None \<Rightarrow> 0 | Some v \<Rightarrow> v)
                (case vy b of None \<Rightarrow> - BULLET_SPEED | Some v \<Rightarrow> v)
                BULLET_DAMAGE
                (case ownerId b of None \<Rightarrow> None | Some oid \<Rightarrow> map_get (players s) oid))"

definition collisions :: "(nat \<Rightarrow> real) \<Rightarrow> game \<Rightarrow> game" where
  "collisions rnd s = foldl (\<lambda>t bi. collideBullet rnd bi t) s [0..<length (bullets s)]"

subsection \<open>Bullet movement (255--278)\<close>

definition bounce :: "bullet \<Rightarrow> bullet" where
  "bounce b =
     (let bl = (case bouncesLeft b of None \<Rightarrow> 0 | Some n \<Rightarrow> n)
      in if bl > 0
         then
           let flipX = (\<lambda>c. c\<lparr>vx := Some ((case vx c of None \<Rightarrow> 0 | Some v \<Rightarrow> v) * - 1)\<rparr>);
               flipY = (\<lambda>c. c\<lparr>vy := Some ((case vy c of None \<Rightarrow> - BULLET_SPEED
                                             | Some v \<Rightarrow> v) * - 1)\<rparr>);
               (b1, n1) = (if ent_x b < BULLET_RADIUS
                           then (flipX (b\<lparr>ent_x := BULLET_RADIUS\<rparr>), bl - 1) else (b, bl));
               (b2, n2) = (if ent_x b1 > ROOM_WIDTH - BULLET_RADIUS
                           then (flipX (b1\<lparr>ent_x := ROOM_WIDTH - BULLET_RADIUS\<rparr>), n1 - 1)
                           else (b1, n1));
               (b3, n3) = (if ent_y b2 < BULLET_RADIUS
                           then (flipY (b2\<lparr>ent_y := BULLET_RADIUS\<rparr>), n2 - 1) else (b2, n2));
               (b4, n4) = (if ent_y b3 > ROOM_HEIGHT - BULLET_RADIUS
                           then (flipY (b3\<lparr>ent_y := ROOM_HEIGHT - BULLET_RADIUS\<rparr>), n3 - 1)
                           else (b3, n3))
           in b4\<lparr>bouncesLeft := Some (max 0 n4)\<rparr>
         else b)"

definition moveBullet :: "bullet \<Rightarrow> bullet" where
  "moveBullet b =
     (let mx = (case tmp_moveX b of None \<Rightarrow> 0 | Some v \<Rightarrow> v);
          my = (case tmp_moveY b of None \<Rightarrow> - BULLET_SPEED | Some v \<Rightarrow> v);
          b1 = b\<lparr>ent_x := ent_x b + mx, ent_y := ent_y b + my,
                 tmp_moveX := None, tmp_moveY := None\<rparr>;
          b2 = (if \<not> homing b1 \<and> (vx b1 \<noteq> None \<or> vy b1 \<noteq> None)
                then b1\<lparr>vx := Some mx, vy := Some my\<rparr> else b1)
      in bounce b2)"

definition outOfRoom :: "bullet \<Rightarrow> bool" where
  "outOfRoom b =
     (ent_y b < - BULLET_RADIUS \<or> ent_y b > ROOM_HEIGHT + BULLET_RADIUS
      \<or> ent_x b < - BULLET_RADIUS \<or> ent_x b > ROOM_WIDTH + BULLET_RADIUS)"

definition moveBullets :: "game \<Rightarrow> game" where
  "moveBullets s =
     (let bs = map moveBullet (bullets s);
          gone = foldl (\<lambda>ks b. if outOfRoom b then set_add (ent_id b) ks else ks)
                   (toRemoveBullets s) bs
      in s\<lparr>bullets := filter (\<lambda>b. ent_id b \<notin> set gone) bs, toRemoveBullets := gone\<rparr>)"

subsection \<open>New bullets (280--324)\<close>

definition newBullet :: "nat \<Rightarrow> player \<Rightarrow> int \<Rightarrow> bullet" where
  "newBullet k p i =
     (let count = bulletCount p;
          bounces = bounceCount p;
          dx = (if count > 1 then (real_of_int i - (real_of_int count - 1) / 2) * 16 else 0)
      in \<lparr>ent_id = k, ent_x = ent_x p + dx, ent_y = ent_y p,
          ownerId = Some (ent_id p), radius = BULLET_RADIUS,
          vx = (if bounces > 0 then Some 0 else None),
          vy = (if bounces > 0 then Some (- BULLET_SPEED) else None),
          bouncesLeft = (if bounces > 0 then Some bounces else None),
          homing = False, targetBallId = None, damage = None,
          tmp_moveX = None, tmp_moveY = None\<rparr>)"

text \<open>Lines 304--309: the nearest ball strictly inside the melee range, if any.\<close>

definition nearestBall :: "player \<Rightarrow> ball list \<Rightarrow> ball option" where
  "nearestBall p bs =
     fst (foldl (\<lambda>(nearest, nearestDist) b.
                   let d = hypot (ent_x b - ent_x p) (ent_y b - ent_y p)
                   in if d < nearestDist then (Some b, d) else (nearest, nearestDist))
            (None, MELEE_RANGE) bs)"

definition homingBullet :: "nat \<Rightarrow> player \<Rightarrow> ball \<Rightarrow> bullet" where
  "homingBullet k p target =
     \<lparr>ent_id = k, ent_x = ent_x p, ent_y = ent_y p,
      ownerId = Some (ent_id p), radius = BULLET_RADIUS,
      vx = None, vy = None, bouncesLeft = None,
      homing = True, targetBallId = Some (ent_id target), damage = Some (meleeDamage p),
      tmp_moveX = None, tmp_moveY = None\<rparr>"

text \<open>Lines 282--323 for one player.\<close>

definition playerShoots :: "player \<Rightarrow> game \<Rightarrow> game" where
  "playerShoots p s =
     (let n = nat (bulletCount p);
          s1 = s\<lparr>bullets :=
                   bullets s @ map (\<lambda>i. newBullet (nextBulletId s + i) p (int i)) [0..<n],
                 nextBulletId := nextBulletId s + n\<rparr>
      in if meleeDamage p > 0 \<and> tickCount s1 mod MELEE_BULLET_INTERVAL = 0
         then (case nearestBall p (balls s1) of
                 None \<Rightarrow> s1
               | Some target \<Rightarrow>
                   s1\<lparr>bullets := bullets s1 @ [homingBullet (nextBulletId s1) p target],
                      nextBulletId := nextBulletId s1 + 1\<rparr>)
         else s1)"

definition spawnBullets :: "game \<Rightarrow> game" where
  "spawnBullets s =
     (if gameStarted s \<and> gamePhase s = Playing \<and> lives s > 0
      then foldl (\<lambda>t p. playerShoots p t) s (players s)
      else s)"

subsection \<open>Burn damage and ball movement (325--342)\<close>

definition burnBall :: "int \<Rightarrow> ball \<Rightarrow> ball" where
  "burnBall tick b =
     (case burnEndTick b of
        None \<Rightarrow> b
      | Some e \<Rightarrow> if tick < e then b\<lparr>hp := hp b - 1\<rparr> else b)"

definition burning :: "int \<Rightarrow> ball \<Rightarrow> bool" where
  "burning tick b = (case burnEndTick b of None \<Rightarrow> False | Some e \<Rightarrow> tick < e)"

definition burnDamage :: "game \<Rightarrow> game" where
  "burnDamage s =
     (let bs = map (burnBall (tickCount s)) (balls s)
      in s\<lparr>balls := bs,
           toRemoveBalls :=
             foldl (\<lambda>ks b. if burning (tickCount s) b \<and> hp b \<le> 0
                            then set_add (ent_id b) ks else ks)
               (toRemoveBalls s) bs\<rparr>)"

text \<open>Lines 334--340: a ball is below the room once it has moved.\<close>

definition fallen :: "ball \<Rightarrow> bool" where
  "fallen b = (ent_y b > ROOM_HEIGHT + ball_radius b)"

definition dropBall :: "ball \<Rightarrow> ball" where
  "dropBall b = b\<lparr>ent_y := ent_y b + speed b\<rparr>"

definition moveBalls :: "game \<Rightarrow> game" where
  "moveBalls s =
     (let bs = map dropBall (balls s);
          gone = foldl (\<lambda>ks b. if fallen b then set_add (ent_id b) ks else ks)
                   (toRemoveBalls s) bs;
          left = foldl (\<lambda>n b. if fallen b then n - 1 else n) (lives s) bs
      in s\<lparr>balls := filter (\<lambda>b. ent_id b \<notin> set gone) bs, toRemoveBalls := gone,
           lives := (if left < 0 then 0 else left)\<rparr>)"

subsection \<open>The whole tick and the broadcast (149--373)\<close>

text \<open>
  \<open>now1\<close> and \<open>now2\<close> are the readings of \<^verbatim>\<open>Date.now()\<close> at lines 166 and 179. The
  stages before the ball movement are \<open>beforeBallMove\<close>, so that a statement can name the
  balls that are about to move.
\<close>

definition startTick :: "game \<Rightarrow> game" where
  "startTick s =
     s\<lparr>tickCount := tickCount s + 1, toRemoveBullets := [], toRemoveBalls := [],
       areaDamageHits := [], bulletHits := []\<rparr>"

definition phaseSteps :: "(nat \<Rightarrow> real) \<Rightarrow> int \<Rightarrow> int \<Rightarrow> game \<Rightarrow> game" where
  "phaseSteps rnd now1 now2 s =
     endCardSelection now2 (waveStep rnd now1 (checkGameOver (startTick s)))"

definition beforeBallMove :: "(nat \<Rightarrow> real) \<Rightarrow> int \<Rightarrow> int \<Rightarrow> game \<Rightarrow> game" where
  "beforeBallMove rnd now1 now2 s =
     burnDamage (spawnBullets (moveBullets (collisions rnd
       (processInput (phaseSteps rnd now1 now2 s)))))"

definition gameTick :: "(nat \<Rightarrow> real) \<Rightarrow> int \<Rightarrow> int \<Rightarrow> game \<Rightarrow> game" where
  "gameTick rnd now1 now2 s = moveBalls (beforeBallMove rnd now1 now2 s)"

text \<open>
  The \<^verbatim>\<open>state\<close> message (345--372). A player is sent without \<^verbatim>\<open>keys\<close> and
  \<^verbatim>\<open>cardSelected\<close>, a ball with the derived \<^verbatim>\<open>burning\<close> flag.
\<close>

record player_view = entity +
  v_offeredCards :: "card list option"
  v_criticalChance :: int
  v_pierceChance :: int
  v_areaDamageLevel :: int
  v_bulletCount :: int
  v_pusherChance :: int
  v_ignitionChance :: int
  v_meleeDamage :: int
  v_bounceCount :: int

record ball_view = ball +
  v_burning :: bool

record message =
  m_gameStarted :: bool
  m_gamePhase :: phase
  m_wave :: int
  m_lives :: int
  m_cardSelectionEndTime :: int
  m_players :: "player_view list"
  m_bullets :: "bullet list"
  m_balls :: "ball_view list"
  m_areaDamageHits :: "(real \<times> real) list"
  m_bulletHits :: "(real \<times> real) list"

definition viewPlayer :: "player \<Rightarrow> player_view" where
  "viewPlayer p =
     \<lparr>ent_id = ent_id p, ent_x = ent_x p, ent_y = ent_y p,
      v_offeredCards = offeredCards p,
      v_criticalChance = criticalChance p, v_pierceChance = pierceChance p,
      v_areaDamageLevel = areaDamageLevel p, v_bulletCount = bulletCount p,
      v_pusherChance = pusherChance p, v_ignitionChance = ignitionChance p,
      v_meleeDamage = meleeDamage p, v_bounceCount = bounceCount p\<rparr>"

definition viewBall :: "int \<Rightarrow> ball \<Rightarrow> ball_view" where
  "viewBall tick b = ball.extend b \<lparr>v_burning = burning tick b\<rparr>"

definition stateMessage :: "game \<Rightarrow> message" where
  "stateMessage s =
     \<lparr>m_gameStarted = gameStarted s, m_gamePhase = gamePhase s, m_wave = wave s,
      m_lives = lives s, m_cardSelectionEndTime = cardSelectionEndTime s,
      m_players = map viewPlayer (players s), m_bullets = bullets s,
      m_balls = map (viewBall (tickCount s)) (balls s),
      m_areaDamageHits = areaDamageHits s, m_bulletHits = bulletHits s\<rparr>"

text \<open>What one run of \<^verbatim>\<open>gameTick\<close> emits.\<close>

definition emitted :: "(nat \<Rightarrow> real) \<Rightarrow> int \<Rightarrow> int \<Rightarrow> game \<Rightarrow> message" where
  "emitted rnd now1 now2 s = stateMessage (gameTick rnd now1 now2 s)"

section \<open>The client's reconciler (src/unnamed/part_000)\<close>

text \<open>
  The state kept for each received message (87--101), and the buffer entry that tags it
  with its receipt time, a reading of \<^verbatim>\<open>performance.now()\<close>.
\<close>

record cstate =
  c_gameStarted :: bool
  c_gamePhase :: phase
  c_cardSelectionEndTime :: int
  c_players :: "player_view list"
  c_bullets :: "bullet list"
  c_balls :: "ball_view list"
  c_areaDamageHits :: "(real \<times> real) list"
  c_bulletHits :: "(real \<times> real) list"
  c_lives :: int

record snapshot =
  snap_time :: real
  snap_state :: cstate

definition SERVER_TICK_MS :: real where "SERVER_TICK_MS = 1000 / 15"
definition PX_PER_MS_BULLET :: real where "PX_PER_MS_BULLET = BULLET_SPEED / SERVER_TICK_MS"
definition INTERP_DELAY_MS :: real where "INTERP_DELAY_MS = 50"

definition lerp :: "real \<Rightarrow> real \<Rightarrow> real \<Rightarrow> real" where
  "lerp a b t = a + (b - a) * t"

text \<open>\<^verbatim>\<open>{...b, x: lerp(a.x, b.x, t), y: lerp(a.y, b.y, t)}\<close>, for any kind of entity.\<close>

definition lerpEntity ::
  "('a entity_scheme) option \<Rightarrow> 'a entity_scheme \<Rightarrow> real \<Rightarrow> 'a entity_scheme" where
  "lerpEntity a b t =
     (case a of
        None \<Rightarrow> b
      | Some a' \<Rightarrow> b\<lparr>ent_x := lerp (ent_x a') (ent_x b) t, ent_y := lerp (ent_y a') (ent_y b) t\<rparr>)"

text \<open>
  \<^verbatim>\<open>xs.find((p) => p.id === id)\<close> is \<open>map_get\<close>. The areaDamageHits and bulletHits of a
  stored state are always arrays, so their \<^verbatim>\<open>|| []\<close> is never taken.
\<close>

definition lerpState :: "cstate option \<Rightarrow> cstate \<Rightarrow> real \<Rightarrow> cstate" where
  "lerpState stateA stateB t =
     (case stateA of
        None \<Rightarrow> stateB
      | Some sa \<Rightarrow>
          \<lparr>c_gameStarted = c_gameStarted stateB,
           c_gamePhase = c_gamePhase stateB,
           c_cardSelectionEndTime = c_cardSelectionEndTime stateB,
           c_players =
             map (\<lambda>pb. lerpEntity (map_get (c_players sa) (ent_id pb)) pb t)
               (c_players stateB),
           c_bullets =
             map (\<lambda>bb. lerpEntity (map_get (c_bullets sa) (ent_id bb)) bb t)
               (c_bullets stateB),
           c_balls =
             map (\<lambda>bb. lerpEntity (map_get (c_balls sa) (ent_id bb)) bb t)
               (c_balls stateB),
           c_areaDamageHits = c_areaDamageHits stateB,
           c_bulletHits = c_bulletHits stateB,
           c_lives = c_lives stateB\<rparr>)"

text \<open>
  The search loop (229--235) from position \<open>i\<close> on: the positions of the first adjacent
  pair of entries whose times bracket the render time, if there is one.
\<close>

fun findBracket :: "real \<Rightarrow> snapshot list \<Rightarrow> nat \<Rightarrow> (nat \<times> nat) option" where
  "findBracket r (a # b # rest) i =
     (if snap_time a \<le> r \<and> snap_time b \<ge> r then Some (i, i + 1)
      else findBracket r (b # rest) (i + 1))"
| "findBracket r [a] i = None"
| "findBracket r [] i = None"

text \<open>Lines 252--266, for one bullet of the newest state.\<close>

definition extrapolate :: "real \<Rightarrow> bullet \<Rightarrow> bullet" where
  "extrapolate elapsed b =
     (if homing b then b
      else if vx b \<noteq> None \<or> vy b \<noteq> None
      then (let ticks = elapsed / SERVER_TICK_MS
            in b\<lparr>ent_x := ent_x b + (case vx b of None \<Rightarrow> 0 | Some v \<Rightarrow> v) * ticks,
                 ent_y := ent_y b
                            + (case vy b of None \<Rightarrow> - BULLET_SPEED | Some v \<Rightarrow> v) * ticks\<rparr>)
      else b\<lparr>ent_y := ent_y b - PX_PER_MS_BULLET * elapsed\<rparr>)"

text \<open>
  \<^verbatim>\<open>getInterpolatedState\<close> (220--270); \<open>now\<close> is the reading of \<^verbatim>\<open>performance.now()\<close>,
  \<open>None\<close> is \<^verbatim>\<open>null\<close>. Every buffer entry is an object of its own, so \<^verbatim>\<open>prev === next\<close>
  holds exactly when both are the entry at the same position.
\<close>

definition getInterpolatedState :: "real \<Rightarrow> snapshot list \<Rightarrow> cstate option" where
  "getInterpolatedState now stateBuffer =
     (if length stateBuffer = 0 then None
      else
        let renderTime = now - INTERP_DELAY_MS;
            (i, j) = (case findBracket renderTime stateBuffer 0 of
                        None \<Rightarrow> (0, length stateBuffer - 1)
                      | Some ij \<Rightarrow> ij);
            prev = stateBuffer ! i;
            next = stateBuffer ! j;
            st = (if i = j then snap_state prev
                  else let dt = (if snap_time next - snap_time prev = 0 then 1
                                 else snap_time next - snap_time prev);
                           alpha = min 1 (max 0 ((renderTime - snap_time prev) / dt))
                       in lerpState (Some (snap_state prev)) (snap_state next) alpha);
            latest = stateBuffer ! (length stateBuffer - 1);
            elapsed = now - snap_time latest
        in Some (st\<lparr>c_bullets := map (extrapolate elapsed) (c_bullets (snap_state latest))\<rparr>))"

section \<open>Auxiliary definitions for the statements\<close>

text \<open>The variables of the game that only the phase steps, the input step and the ball
  movement write.\<close>

definition frame ::
  "game \<Rightarrow> player list \<times> phase \<times> int \<times> real \<times> int \<times> bool \<times> int" where
  "frame s =
     (players s, gamePhase s, wave s, waveWeightSpawned s, lives s, gameStarted s,
      tickCount s)"

text \<open>
  The movement of lines 251--259 for a bullet whose movement vector of the tick is
  \<open>(moveX, moveY)\<close>.
\<close>

definition advance :: "real \<Rightarrow> real \<Rightarrow> bullet \<Rightarrow> bullet" where
  "advance moveX moveY b = moveBullet (b\<lparr>tmp_moveX := Some moveX, tmp_moveY := Some moveY\<rparr>)"


text \<open>
  The movement vector that lines 207--223 compute for a bullet, \<open>None\<close> for the homing
  bullet whose target is no longer in the map and that line 212 removes untested.
\<close>

definition movementOf :: "game \<Rightarrow> bullet \<Rightarrow> (real \<times> real) option" where
  "movementOf s b =
     (if homing b
      then (case (case targetBallId b of None \<Rightarrow> None
                   | Some tid \<Rightarrow> map_get (balls s) tid) of
              None \<Rightarrow> None
            | Some target \<Rightarrow>
                let dx = ent_x target - ent_x b;
                    dy = ent_y target - ent_y b;
                    len = (if hypot dx dy = 0 then 1 else hypot dx dy)
                in Some ((dx / len) * BULLET_SPEED, (dy / len) * BULLET_SPEED))
      else Some (case vx b of None \<Rightarrow> 0 | Some v \<Rightarrow> v,
                 case vy b of None \<Rightarrow> - BULLET_SPEED | Some v \<Rightarrow> v))"






definition onlyAt :: "nat \<Rightarrow> 'a list \<Rightarrow> 'a list \<Rightarrow> bool" where
  "onlyAt i xs ys \<longleftrightarrow> (\<exists>g. ys = xs[i := g])"


text \<open>
  The specification's wording of the reconciler. An entity of the newer list that is also
  in the older list is shown at the point that divides the way from its older to its
  newer position at the fraction \<open>f\<close>. A bullet of the newest state is shown where it
  was reported if it is homing, and otherwise moved on by its velocity per tick, known
  or default, times the elapsed time in ticks.
\<close>

definition spec_interpolated ::
  "('a entity_scheme) list \<Rightarrow> ('a entity_scheme) list \<Rightarrow> real \<Rightarrow> ('a entity_scheme) list
     \<Rightarrow> bool" where
  "spec_interpolated old new f shown \<longleftrightarrow>
     length shown = length new
     \<and> (\<forall>n < length new.
           case map_get old (ent_id (new ! n)) of
             None \<Rightarrow> True
           | Some a \<Rightarrow>
               ent_x (shown ! n) = (1 - f) * ent_x a + f * ent_x (new ! n)
               \<and> ent_y (shown ! n) = (1 - f) * ent_y a + f * ent_y (new ! n))"

definition velocityX :: "bullet \<Rightarrow> real" where
  "velocityX b = (case vx b of None \<Rightarrow> 0 | Some v \<Rightarrow> v)"

definition velocityY :: "bullet \<Rightarrow> real" where
  "velocityY b = (case vy b of None \<Rightarrow> - BULLET_SPEED | Some v \<Rightarrow> v)"

definition spec_extrapolated :: "real \<Rightarrow> bullet list \<Rightarrow> bullet list \<Rightarrow> bool" where
  "spec_extrapolated elapsed newest shown \<longleftrightarrow>
     length shown = length newest
     \<and> (\<forall>n < length newest.
           if homing (newest ! n) then shown ! n = newest ! n
           else ent_x (shown ! n)
                  = ent_x (newest ! n) + velocityX (newest ! n) * (elapsed / SERVER_TICK_MS)
                \<and> ent_y (shown ! n)
                  = ent_y (newest ! n) + velocityY (newest ! n) * (elapsed / SERVER_TICK_MS))"

section \<open>Concrete states\<close>

definition zeroRnd :: "nat \<Rightarrow> real" where
  "zeroRnd k = 0"

definition demoPlayer :: player where
  "demoPlayer =
     \<lparr>ent_id = 1, ent_x = 360, ent_y = 1200,
      criticalChance = 0, pierceChance = 0, areaDamageLevel = 0, bulletCount = 1,
      pusherChance = 0, ignitionChance = 0, meleeDamage = 0, bounceCount = 0,
      keys = \<lparr>key_left = True, key_right = False, key_up = False, key_down = False\<rparr>,
      offeredCards = None, cardSelected = False\<rparr>"

definition demoBall :: ball where
  "demoBall =
     \<lparr>ent_id = 1, ent_x = 360, ent_y = 1320, ball_type = Normal, hp = 20, maxHp = 20,
      speed = 7, ball_radius = 44, burnEndTick = None\<rparr>"

definition demoGame :: game where
  "demoGame =
     \<lparr>players = [demoPlayer], bullets = [], balls = [], nextBulletId = 1, nextBallId = 1,
      tickCount = 0, gameStarted = True, gamePhase = Playing, wave = 1,
      waveWeightSpawned = 0, lastSpawnTick = 0, cardSelectionEndTime = 0, lives = 10,
      rngPos = 0, toRemoveBullets = [], toRemoveBalls = [], areaDamageHits = [],
      bulletHits = []\<rparr>"

text \<open>Wave 1 with its budget of 20 spent and no ball left; the same with no life left.\<close>

definition completeGame :: game where
  "completeGame = demoGame\<lparr>waveWeightSpawned := 20\<rparr>"

definition deadGame :: game where
  "deadGame = completeGame\<lparr>lives := 0\<rparr>"

definition overGame :: game where
  "overGame = demoGame\<lparr>gamePhase := GameOver, lives := 0\<rparr>"

text \<open>A ball that leaves the room with its next step.\<close>

definition fallingGame :: game where
  "fallingGame = demoGame\<lparr>balls := [demoBall]\<rparr>"

text \<open>Card selection with a deadline at 15000 ms: one player with three cards, and nobody.\<close>

definition offeredPlayer :: player where
  "offeredPlayer = demoPlayer\<lparr>offeredCards := Some [Critical, Melee, ExtraLife]\<rparr>"

definition selectionGame :: game where
  "selectionGame =
     demoGame\<lparr>gamePhase := CardSelection, players := [offeredPlayer],
       cardSelectionEndTime := 15000\<rparr>"

definition emptySelectionGame :: game where
  "emptySelectionGame =
     demoGame\<lparr>gamePhase := CardSelection, players := [], cardSelectionEndTime := 15000\<rparr>"

text \<open>A player with the melee upgrade, a ball in range, and tick 4 next.\<close>

definition meleePlayer :: player where
  "meleePlayer = demoPlayer\<lparr>meleeDamage := 1\<rparr>"

definition nearBall :: ball where
  "nearBall = demoBall\<lparr>ent_y := 1100\<rparr>"

definition meleeGame :: game where
  "meleeGame = demoGame\<lparr>players := [meleePlayer], balls := [nearBall], tickCount := 3\<rparr>"

definition homingGame :: game where
  "homingGame = demoGame\<lparr>bullets := [homingBullet 1 meleePlayer nearBall], balls := [nearBall]\<rparr>"

text \<open>
  A bullet 150 below a ball, and a buffer of two states received at 100 ms and 200 ms.
\<close>

definition upBullet :: bullet where
  "upBullet = newBullet 1 demoPlayer 0"


definition oldState :: cstate where
  "oldState =
     \<lparr>c_gameStarted = True, c_gamePhase = Playing, c_cardSelectionEndTime = 0,
      c_players = [viewPlayer demoPlayer], c_bullets = [],
      c_balls = [viewBall 0 nearBall], c_areaDamageHits = [], c_bulletHits = [],
      c_lives = 10\<rparr>"

definition newState :: cstate where
  "newState =
     oldState\<lparr>c_players := [viewPlayer (demoPlayer\<lparr>ent_x := 344\<rparr>)],
       c_bullets := [upBullet, homingBullet 2 meleePlayer nearBall],
       c_balls := [viewBall 1 (nearBall\<lparr>ent_y := 1107\<rparr>)]\<rparr>"

definition demoBuffer :: "snapshot list" where
  "demoBuffer =
     [\<lparr>snap_time = 100, snap_state = oldState\<rparr>, \<lparr>snap_time = 200, snap_state = newState\<rparr>]"

text \<open>Some of the property names that an array inherits in every runtime.\<close>

definition someProto :: "string \<Rightarrow> bool" where
  "someProto key \<longleftrightarrow> key \<in> set [''constructor'', ''map'', ''push'', ''toString'']"










section \<open>Properties\<close>

subsection \<open>Evaluation of concrete ticks\<close>

lemmas tick_defs =
  gameTick_def beforeBallMove_def phaseSteps_def startTick_def checkGameOver_def
  waveStep_def trySpawn_def enterCardSelection_def endCardSelection_def processInput_def
  movePlayer_def collisions_def moveBullets_def spawnBullets_def playerShoots_def
  newBullet_def burnDamage_def moveBalls_def maxWeight_def spawnIntervalTicks_def
  burnBall_def burning_def fallen_def dropBall_def set_add_def

lemmas const_defs =
  TICK_RATE_def ROOM_WIDTH_def ROOM_HEIGHT_def PLAYER_RADIUS_def PLAYER_SPEED_def
  BULLET_DAMAGE_def BULLET_RADIUS_def BULLET_SPEED_def CARD_SELECTION_MS_def
  INITIAL_LIVES_def AREA_DAMAGE_RADIUS_def PUSHER_STRENGTH_def BURN_DURATION_TICKS_def
  MELEE_RANGE_def MELEE_BULLET_INTERVAL_def

lemmas demo_defs =
  demoGame_def demoPlayer_def demoBall_def completeGame_def deadGame_def overGame_def
  fallingGame_def offeredPlayer_def selectionGame_def emptySelectionGame_def
  meleePlayer_def nearBall_def meleeGame_def homingGame_def

lemma hypot_less_iff:
  assumes "0 < r"
  shows "hypot a b < r \<longleftrightarrow> a * a + b * b < r * r"
proof -
  have "sqrt (a * a + b * b) < r \<longleftrightarrow> sqrt (a * a + b * b) < sqrt (r * r)"
    using assms by simp
  also have "\<dots> \<longleftrightarrow> a * a + b * b < r * r"
    by (rule real_sqrt_less_iff)
  finally show ?thesis by (simp add: hypot_def)
qed

lemma hypot_le_const_iff:
  assumes "0 \<le> r"
  shows "hypot a b \<le> r \<longleftrightarrow> a * a + b * b \<le> r * r"
proof -
  have "sqrt (a * a + b * b) \<le> r \<longleftrightarrow> sqrt (a * a + b * b) \<le> sqrt (r * r)"
    using assms by simp
  also have "\<dots> \<longleftrightarrow> a * a + b * b \<le> r * r"
    by (rule real_sqrt_le_iff)
  finally show ?thesis by (simp add: hypot_def)
qed

subsection \<open>What the simulation steps leave alone\<close>

lemma foldl_keep:
  assumes "\<And>t x. g (f t x) = g t"
  shows "g (foldl f s xs) = g s"
  using assms by (induction xs arbitrary: s) simp_all

lemma foldl_commute:
  assumes "\<And>t x. f (g t) x = g (f t x)"
  shows "foldl f (g s) xs = g (foldl f s xs)"
  using assms by (induction xs arbitrary: s) simp_all

lemma frameD:
  assumes "frame s = frame t"
  shows "players s = players t \<and> gamePhase s = gamePhase t \<and> wave s = wave t
     \<and> waveWeightSpawned s = waveWeightSpawned t \<and> lives s = lives t
     \<and> gameStarted s = gameStarted t \<and> tickCount s = tickCount t"
  using assms by (simp add: frame_def)

lemma frame_drawn: "frame (drawn s) = frame s"
  by (simp add: frame_def drawn_def)

lemma frame_markBall: "frame (markBall b s) = frame s"
  by (simp add: frame_def markBall_def)

lemma frame_markBullet: "frame (markBullet b s) = frame s"
  by (simp add: frame_def markBullet_def)

lemma frame_modBall: "frame (modBall i f s) = frame s"
  by (simp add: frame_def modBall_def)

lemma frame_areaHit: "frame (areaHit c d j s) = frame s"
  by (simp add: areaHit_def Let_def frame_markBall) (simp add: frame_def)

lemma frame_damageStep: "frame (damageStep rnd b d owner i s) = frame s"
  by (simp add: damageStep_def Let_def frame_markBall frame_modBall frame_drawn)

lemma frame_pushStep: "frame (pushStep rnd b owner i s) = frame s"
  by (simp add: pushStep_def frame_modBall frame_drawn)

lemma frame_igniteStep: "frame (igniteStep rnd b owner i s) = frame s"
  by (simp add: igniteStep_def frame_modBall frame_drawn)

lemma frame_spendStep: "frame (spendStep rnd b owner s) = frame s"
  by (simp add: spendStep_def frame_markBullet frame_drawn)

lemma frame_areaStep: "frame (areaStep b owner i s) = frame s"
  by (simp add: areaStep_def Let_def foldl_keep frame_areaHit) (simp add: frame_def)

lemma frame_hitBall: "frame (hitBall rnd b mx my d owner i s) = frame s"
  by (simp add: hitBall_def Let_def frame_areaStep frame_spendStep frame_igniteStep
        frame_pushStep frame_damageStep) (simp add: frame_def)

lemma frame_bullets_update: "frame (s\<lparr>bullets := bs\<rparr>) = frame s"
  by (simp add: frame_def)

lemma frame_collideBullet: "frame (collideBullet rnd bi s) = frame s"
  by (simp add: collideBullet_def Let_def frame_bullets_update foldl_keep frame_hitBall
        frame_markBullet split: option.splits)

lemma frame_collisions: "frame (collisions rnd s) = frame s"
  by (simp add: collisions_def foldl_keep frame_collideBullet)

lemma frame_moveBullets: "frame (moveBullets s) = frame s"
  by (simp add: moveBullets_def Let_def frame_def)

lemma frame_playerShoots: "frame (playerShoots p s) = frame s"
  by (simp add: playerShoots_def Let_def frame_def split: option.splits)

lemma frame_spawnBullets: "frame (spawnBullets s) = frame s"
  by (simp add: spawnBullets_def foldl_keep frame_playerShoots)

lemma frame_burnDamage: "frame (burnDamage s) = frame s"
  by (simp add: burnDamage_def Let_def frame_def)

lemma frame_beforeBallMove:
  "frame (beforeBallMove rnd now1 now2 s) = frame (processInput (phaseSteps rnd now1 now2 s))"
  by (simp add: beforeBallMove_def frame_burnDamage frame_spawnBullets frame_moveBullets
        frame_collisions)

lemma moveBalls_keeps:
  "gamePhase (moveBalls s) = gamePhase s \<and> players (moveBalls s) = players s
   \<and> wave (moveBalls s) = wave s \<and> waveWeightSpawned (moveBalls s) = waveWeightSpawned s"
  by (simp add: moveBalls_def Let_def)

lemma gameTick_phase:
  "gamePhase (gameTick rnd now1 now2 s) = gamePhase (phaseSteps rnd now1 now2 s)
   \<and> wave (gameTick rnd now1 now2 s) = wave (phaseSteps rnd now1 now2 s)
   \<and> waveWeightSpawned (gameTick rnd now1 now2 s)
       = waveWeightSpawned (phaseSteps rnd now1 now2 s)"
  using frameD [OF frame_beforeBallMove [of rnd now1 now2 s]]
  by (simp add: gameTick_def moveBalls_keeps processInput_def)

lemma gameTick_players:
  "players (gameTick rnd now1 now2 s) = players (processInput (phaseSteps rnd now1 now2 s))"
  using frameD [OF frame_beforeBallMove [of rnd now1 now2 s]]
  by (simp add: gameTick_def moveBalls_keeps)

lemma lives_phaseSteps: "lives (phaseSteps rnd now1 now2 s) = lives s"
  by (simp add: phaseSteps_def endCardSelection_def waveStep_def enterCardSelection_def
        trySpawn_def spawnBall_def checkGameOver_def startTick_def Let_def)

lemma lives_beforeBallMove: "lives (beforeBallMove rnd now1 now2 s) = lives s"
  using frameD [OF frame_beforeBallMove [of rnd now1 now2 s]]
  by (simp add: processInput_def lives_phaseSteps)

lemma phaseSteps_cardSelection:
  assumes "gamePhase s = CardSelection"
  shows "phaseSteps rnd now1 now2 s = endCardSelection now2 (startTick s)"
  using assms by (simp add: phaseSteps_def checkGameOver_def waveStep_def startTick_def)

lemma phaseSteps_gameOver:
  assumes "gamePhase s = GameOver \<or> (gamePhase s = Playing \<and> lives s \<le> 0)"
  shows "phaseSteps rnd now1 now2 s = (startTick s)\<lparr>gamePhase := GameOver\<rparr>"
  using assms
  by (auto simp add: phaseSteps_def checkGameOver_def waveStep_def startTick_def
        endCardSelection_def)

subsection \<open>Wave completion\<close>

text \<open>
  C1, as the code has it. The budget of wave \<open>N = 1 + n\<close> is \<open>20 \<times> 1.1\<^sup>n\<close>. In a tick
  that starts in the playing phase, lines 152--175 set the phase to card selection exactly
  when the game has been started, the shared lives are positive, the spent weight has
  reached the budget and no ball is alive. (A tick that spawns a ball has a ball alive,
  and it only spawns while the spent weight is below the budget, so the condition is the
  same on the values before and after the spawn.)
\<close>

theorem wave_completion:
  "maxWeight (1 + int n) = 20 * (11 / 10) ^ n
   \<and> (gamePhase s = Playing \<longrightarrow>
        (gamePhase (waveStep rnd now1 (checkGameOver (startTick s))) = CardSelection
         \<longleftrightarrow> gameStarted s \<and> 0 < lives s \<and> maxWeight (wave s) \<le> waveWeightSpawned s
             \<and> balls s = []))"
  by (auto simp add: maxWeight_def waveStep_def checkGameOver_def startTick_def
        enterCardSelection_def trySpawn_def spawnBall_def Let_def)

theorem wave_completion_witness:
  "maxWeight (1 + int 2) = 20 * (11 / 10) ^ 2
   \<and> gamePhase completeGame = Playing
   \<and> gamePhase (waveStep zeroRnd 0 (checkGameOver (startTick completeGame))) = CardSelection"
  using wave_completion [of 2 completeGame zeroRnd 0]
  by (simp add: demo_defs maxWeight_def)

text \<open>
  C1 as it is written fails when the budget is spent and the last ball has taken
  the last life: line 152 ends the game and the guard of line 153 skips the completion
  test.
\<close>

theorem wave_completion_counterexample:
  "gamePhase deadGame = Playing
   \<and> maxWeight (wave deadGame) \<le> waveWeightSpawned deadGame \<and> balls deadGame = []
   \<and> gamePhase (waveStep zeroRnd 0 (checkGameOver (startTick deadGame))) = GameOver
   \<and> gamePhase (gameTick zeroRnd 0 0 deadGame) = GameOver"
  by (simp add: gameTick_phase phaseSteps_def demo_defs maxWeight_def waveStep_def
        checkGameOver_def startTick_def endCardSelection_def)

subsection \<open>End of card selection\<close>

text \<open>
  C3. A tick that starts in the card selection phase ends in the playing phase if every
  connected player has selected or the clock read at line 179 has reached the deadline;
  the wave is then one higher and the spent weight is zero. Otherwise the phase, the wave
  and the spent weight stay as they are. So the phase changes on the first tick at which
  one of the two conditions holds.
\<close>

theorem cardSelection_ends:
  assumes "gamePhase s = CardSelection"
  shows "if list_all cardSelected (players s) \<or> cardSelectionEndTime s \<le> now2
         then gamePhase (gameTick rnd now1 now2 s) = Playing
              \<and> wave (gameTick rnd now1 now2 s) = wave s + 1
              \<and> waveWeightSpawned (gameTick rnd now1 now2 s) = 0
         else gamePhase (gameTick rnd now1 now2 s) = CardSelection
              \<and> wave (gameTick rnd now1 now2 s) = wave s
              \<and> waveWeightSpawned (gameTick rnd now1 now2 s) = waveWeightSpawned s"
  using assms
  by (simp add: gameTick_phase phaseSteps_cardSelection endCardSelection_def startTick_def)

theorem cardSelection_ends_witness:
  "gamePhase selectionGame = CardSelection
   \<and> gamePhase (gameTick zeroRnd 0 14999 selectionGame) = CardSelection
   \<and> wave (gameTick zeroRnd 0 14999 selectionGame) = 1
   \<and> gamePhase (gameTick zeroRnd 0 15000 selectionGame) = Playing
   \<and> wave (gameTick zeroRnd 0 15000 selectionGame) = 2
   \<and> waveWeightSpawned (gameTick zeroRnd 0 15000 selectionGame) = 0"
  using cardSelection_ends [of selectionGame 14999 zeroRnd 0]
    cardSelection_ends [of selectionGame 15000 zeroRnd 0]
  by (simp add: demo_defs)

text \<open>
  C10. With no player connected, a tick that starts in the card selection phase ends in
  the playing phase, whatever the clock reads.
\<close>

theorem no_players_leave_cardSelection:
  assumes "gamePhase s = CardSelection" and "players s = []"
  shows "gamePhase (gameTick rnd now1 now2 s) = Playing"
  using assms
  by (simp add: gameTick_phase phaseSteps_cardSelection endCardSelection_def startTick_def)

theorem no_players_leave_cardSelection_witness:
  "gamePhase emptySelectionGame = CardSelection \<and> players emptySelectionGame = []
   \<and> 0 < cardSelectionEndTime emptySelectionGame
   \<and> gamePhase (gameTick zeroRnd 0 0 emptySelectionGame) = Playing"
  using no_players_leave_cardSelection [of emptySelectionGame zeroRnd 0 0]
  by (simp add: demo_defs)

subsection \<open>Game over\<close>

text \<open>
  C8. A tick that starts in the playing phase with no life left ends in the game-over
  phase, and a tick that starts in the game-over phase stays there; neither changes any
  player, so no position moves, whatever keys are held.
\<close>

theorem gameOver_freezes_players:
  "(gamePhase s = Playing \<and> lives s \<le> 0
      \<longrightarrow> gamePhase (gameTick rnd now1 now2 s) = GameOver
          \<and> players (gameTick rnd now1 now2 s) = players s)
   \<and> (gamePhase s = GameOver
      \<longrightarrow> gamePhase (gameTick rnd now1 now2 s) = GameOver
          \<and> players (gameTick rnd now1 now2 s) = players s)"
  by (simp add: gameTick_phase gameTick_players phaseSteps_gameOver processInput_def
        startTick_def)

theorem gameOver_freezes_players_witness:
  "gamePhase deadGame = Playing \<and> lives deadGame \<le> 0
   \<and> gamePhase (gameTick zeroRnd 0 0 deadGame) = GameOver
   \<and> gamePhase overGame = GameOver \<and> key_left (keys (hd (players overGame)))
   \<and> gamePhase (gameTick zeroRnd 0 0 overGame) = GameOver
   \<and> players (gameTick zeroRnd 0 0 overGame) = players overGame"
  using gameOver_freezes_players [of deadGame zeroRnd 0 0]
    gameOver_freezes_players [of overGame zeroRnd 0 0]
  by (simp add: demo_defs)

text \<open>In the playing phase the same key state does move the player.\<close>

lemma playing_moves_player:
  "map ent_x (players (gameTick zeroRnd 0 0 demoGame)) = [344]"
  by (simp add: gameTick_players phaseSteps_def tick_defs const_defs demo_defs Let_def)

subsection \<open>Lives\<close>

lemma fold_lives:
  "foldl (\<lambda>n b. if fallen b then n - 1 else n) n bs = n - int (length (filter fallen bs))"
  by (induction bs arbitrary: n) simp_all

lemma set_set_add: "set (set_add k ks) = insert k (set ks)"
  by (auto simp add: set_add_def)

lemma fold_gone:
  "set (foldl (\<lambda>ks b. if fallen b then set_add (ent_id b) ks else ks) ks bs)
     = set ks \<union> ent_id ` {b \<in> set bs. fallen b}"
  by (induction bs arbitrary: ks) (auto simp add: set_set_add)

lemma lives_moveBalls:
  "lives (moveBalls s)
     = max 0 (lives s - int (length (filter (\<lambda>b. fallen (dropBall b)) (balls s))))"
  by (simp add: moveBalls_def Let_def fold_lives filter_map comp_def max_def)

lemma balls_moveBalls:
  assumes "b \<in> set (balls s)" and "fallen (dropBall b)"
  shows "ent_id b \<notin> ent_id ` set (balls (moveBalls s))"
proof -
  let ?bs = "map dropBall (balls s)"
  let ?gone = "foldl (\<lambda>ks b. if fallen b then set_add (ent_id b) ks else ks)
                 (toRemoveBalls s) ?bs"
  have "ent_id (dropBall b) = ent_id b" by (simp add: dropBall_def)
  moreover have "dropBall b \<in> {c \<in> set ?bs. fallen c}" using assms by simp
  ultimately have "ent_id b \<in> set ?gone"
    unfolding fold_gone by (metis UnI2 imageI)
  moreover have "balls (moveBalls s) = filter (\<lambda>b. ent_id b \<notin> set ?gone) ?bs"
    by (simp add: moveBalls_def Let_def)
  ultimately show ?thesis by auto
qed

lemma ent_id_viewBall: "ent_id (viewBall t b) = ent_id b"
  by (simp add: viewBall_def ball.defs)

text \<open>
  C5. The lives of every emitted state are non-negative. They are the lives at the start
  of the tick less one for each ball of the map that is below the room after its step of
  the tick, with a floor of zero; and no such ball is among the balls of the emitted
  state.
\<close>

theorem lives_one_per_fallen_ball:
  "0 \<le> m_lives (emitted rnd now1 now2 s)
   \<and> m_lives (emitted rnd now1 now2 s)
       = max 0 (lives s - int (length (filter (\<lambda>b. fallen (dropBall b))
                                        (balls (beforeBallMove rnd now1 now2 s)))))
   \<and> (\<forall>b \<in> set (balls (beforeBallMove rnd now1 now2 s)).
         fallen (dropBall b)
           \<longrightarrow> ent_id b \<notin> ent_id ` set (m_balls (emitted rnd now1 now2 s)))"
proof -
  let ?t = "beforeBallMove rnd now1 now2 s"
  have l: "lives (moveBalls ?t)
             = max 0 (lives s - int (length (filter (\<lambda>b. fallen (dropBall b)) (balls ?t))))"
    by (simp add: lives_moveBalls lives_beforeBallMove)
  have "ent_id ` set (m_balls (emitted rnd now1 now2 s)) = ent_id ` set (balls (moveBalls ?t))"
    by (simp add: emitted_def stateMessage_def gameTick_def image_image ent_id_viewBall)
  then show ?thesis
    using l balls_moveBalls [of _ ?t]
    by (simp add: emitted_def stateMessage_def gameTick_def)
qed

lemma fallingGame_before: "balls (beforeBallMove zeroRnd 0 0 fallingGame) = [demoBall]"
  by (simp add: tick_defs const_defs demo_defs Let_def)

theorem lives_one_per_fallen_ball_witness:
  "demoBall \<in> set (balls (beforeBallMove zeroRnd 0 0 fallingGame))
   \<and> fallen (dropBall demoBall)
   \<and> lives fallingGame = 10
   \<and> m_lives (emitted zeroRnd 0 0 fallingGame) = 9
   \<and> ent_id demoBall \<notin> ent_id ` set (m_balls (emitted zeroRnd 0 0 fallingGame))"
proof -
  have a: "fallen (dropBall demoBall)"
    by (simp add: fallen_def dropBall_def demoBall_def ROOM_HEIGHT_def)
  have b: "lives fallingGame = 10"
    by (simp add: demo_defs)
  show ?thesis
    using lives_one_per_fallen_ball [of zeroRnd 0 0 fallingGame] a b
    by (simp add: fallingGame_before)
qed

subsection \<open>Card selection requests\<close>

text \<open>
  A request of a connected player is ignored, that is, the whole game state stays as it
  is, when the phase is not card selection, or the player has already selected, or the
  player has no offered cards, or the lookup of the payload in the offered cards is
  \<^verbatim>\<open>undefined\<close> or zero. The handler has no other outcome than the state, so nothing is
  reported.
\<close>

lemma selectCard_ignored:
  assumes "map_get (players s) pid = Some p"
    and "gamePhase s \<noteq> CardSelection \<or> cardSelected p
         \<or> (case offeredCards p of
               None \<Rightarrow> True
             | Some offered \<Rightarrow> falsy (js_member proto offered cardIndex))"
  shows "selectCard proto pid cardIndex s = s"
  using assms by (auto simp add: selectCard_def Let_def split: option.splits)

text \<open>So it is for every number that is not an index of the offered cards.\<close>

lemma selectCard_number_out_of_range:
  assumes "map_get (players s) pid = Some p" and "offeredCards p = Some offered"
    and "r \<noteq> of_int \<lfloor>r\<rfloor> \<or> r < 0 \<or> real (length offered) \<le> r"
  shows "selectCard proto pid (PNumber r) s = s"
proof (rule selectCard_ignored [OF assms(1)])
  have "js_member proto offered (PNumber r) = Undefined"
    using assms(3) by (auto simp add: js_member_def js_element_def js_index_def)
  then show "gamePhase s \<noteq> CardSelection \<or> cardSelected p
         \<or> (case offeredCards p of
               None \<Rightarrow> True
             | Some offered \<Rightarrow> falsy (js_member proto offered (PNumber r)))"
    by (simp add: assms(2) falsy_def)
qed

text \<open>A valid request is not ignored: index 2 of the offer of \<open>selectionGame\<close> adds a life.\<close>

lemma selectCard_valid_example:
  "lives (selectCard proto 1 (PNumber 2) selectionGame) = 11
   \<and> map cardSelected (players (selectCard proto 1 (PNumber 2) selectionGame)) = [True]"
  by (simp add: selectCard_def js_member_def js_element_def js_index_def falsy_def
        map_get_def map_modify_def demo_defs)

text \<open>
  C4 fails on the code. The payload \<^verbatim>\<open>"length"\<close> is no index of the offered cards, yet the
  lookup yields the number 3, which passes the guard of line 412, and line 413 sets the
  selection flag of the player: the state is not left unchanged.
\<close>

theorem selectCard_length_sets_flag:
  "js_member proto [Critical, Melee, ExtraLife] (PString ''length'') = NumberValue 3
   \<and> map cardSelected (players selectionGame) = [False]
   \<and> map cardSelected (players (selectCard proto 1 (PString ''length'') selectionGame))
       = [True]
   \<and> selectCard proto 1 (PString ''length'') selectionGame \<noteq> selectionGame"
proof -
  have k: "arrayIndexOfKey ''length'' = None"
    by (simp add: arrayIndexOfKey_def isDigit_def)
  have m: "js_member proto [Critical, Melee, ExtraLife] (PString ''length'') = NumberValue 3"
    by (simp add: js_member_def k)
  have f: "map cardSelected (players (selectCard proto 1 (PString ''length'') selectionGame))
             = [True]"
    by (simp add: selectCard_def m falsy_def map_get_def map_modify_def demo_defs)
  have g: "map cardSelected (players selectionGame) = [False]"
    by (simp add: demo_defs)
  from f g have "selectCard proto 1 (PString ''length'') selectionGame \<noteq> selectionGame"
    by auto
  with m f g show ?thesis by blast
qed

theorem selectCard_length_sets_flag_witness:
  "gamePhase selectionGame = CardSelection
   \<and> map offeredCards (players selectionGame) = [Some [Critical, Melee, ExtraLife]]
   \<and> map cardSelected (players selectionGame) = [False]
   \<and> map cardSelected (players (selectCard someProto 1 (PString ''length'') selectionGame))
       = [True]"
  using selectCard_length_sets_flag [of someProto]
  by (simp add: demo_defs)

text \<open>An inherited method passes the guard as well.\<close>

lemma selectCard_inherited_sets_flag:
  "map cardSelected (players (selectCard someProto 1 (PString ''map'') selectionGame)) = [True]"
proof -
  have "arrayIndexOfKey ''map'' = None"
    by (simp add: arrayIndexOfKey_def isDigit_def)
  then have "js_member someProto [Critical, Melee, ExtraLife] (PString ''map'') = Inherited"
    by (simp add: js_member_def someProto_def)
  then show ?thesis
    by (simp add: selectCard_def falsy_def map_get_def map_modify_def demo_defs)
qed

subsection \<open>Homing bullets\<close>

lemma hitBall_homing:
  assumes "homing b"
  shows "hitBall rnd b mx my d owner i s =
           (if bulletHitsBall b (balls s ! i) mx my
            then markBullet b
                   (damageStep rnd b d owner i
                      (s\<lparr>bulletHits :=
                           bulletHits s @ [(ent_x (balls s ! i), ent_y (balls s ! i))]\<rparr>))
            else s)"
  using assms
  by (simp add: hitBall_def Let_def areaStep_def spendStep_def igniteStep_def pushStep_def)

lemma hitBall_homing_players:
  assumes "homing b"
  shows "hitBall rnd b mx my d owner i (s\<lparr>players := ps\<rparr>)
           = (hitBall rnd b mx my d owner i s)\<lparr>players := ps\<rparr>"
  using assms
  by (simp add: hitBall_homing damageStep_def markBullet_def markBall_def modBall_def Let_def)

lemma hitBall_homing_rng:
  assumes "homing b"
  shows "rngPos (hitBall rnd b mx my d owner i s) = rngPos s
         \<and> areaDamageHits (hitBall rnd b mx my d owner i s) = areaDamageHits s"
  using assms
  by (simp add: hitBall_homing damageStep_def markBullet_def markBall_def modBall_def Let_def)

text \<open>
  C9, as the code has it. A homing bullet is created with the id of the player that
  fired it as its \<^verbatim>\<open>ownerId\<close>. The collision pass never looks that player up: for a
  homing bullet its result is the same whatever the connected players and their
  modifiers are, it draws no random number (no critical, pusher, ignition or pierce
  roll), and it records no area damage.
\<close>

theorem homing_bullet_owner_unused:
  "homing (homingBullet k p c) \<and> ownerId (homingBullet k p c) = Some (ent_id p)
   \<and> (homing (bullets s ! bi) \<longrightarrow>
        collideBullet rnd bi (s\<lparr>players := ps\<rparr>) = (collideBullet rnd bi s)\<lparr>players := ps\<rparr>
        \<and> rngPos (collideBullet rnd bi s) = rngPos s
        \<and> areaDamageHits (collideBullet rnd bi s) = areaDamageHits s)"
proof -
  have a: "homing (homingBullet k p c) \<and> ownerId (homingBullet k p c) = Some (ent_id p)"
    by (simp add: homingBullet_def)
  have b: "collideBullet rnd bi (s\<lparr>players := ps\<rparr>) = (collideBullet rnd bi s)\<lparr>players := ps\<rparr>"
    if h: "homing (bullets s ! bi)"
  proof -
    have "foldl (\<lambda>t i. hitBall rnd (bullets s ! bi) mx my d None i t) (s\<lparr>players := ps\<rparr>) xs
            = (foldl (\<lambda>t i. hitBall rnd (bullets s ! bi) mx my d None i t) s xs)
                \<lparr>players := ps\<rparr>"
      for mx my d xs
      by (rule foldl_commute) (simp add: hitBall_homing_players h)
    then show ?thesis
      using h by (simp add: collideBullet_def Let_def markBullet_def split: option.splits)
  qed
  have c: "rngPos (collideBullet rnd bi s) = rngPos s
           \<and> areaDamageHits (collideBullet rnd bi s) = areaDamageHits s"
    if h: "homing (bullets s ! bi)"
  proof -
    have "rngPos (foldl (\<lambda>t i. hitBall rnd (bullets s ! bi) mx my d None i t) s xs)
            = rngPos s"
      for mx my d xs
      by (rule foldl_keep) (simp add: hitBall_homing_rng h)
    moreover
    have "areaDamageHits (foldl (\<lambda>t i. hitBall rnd (bullets s ! bi) mx my d None i t) s xs)
            = areaDamageHits s"
      for mx my d xs
      by (rule foldl_keep) (simp add: hitBall_homing_rng h)
    ultimately show ?thesis
      using h by (simp add: collideBullet_def Let_def markBullet_def split: option.splits)
  qed
  from a b c show ?thesis by blast
qed

theorem homing_bullet_owner_unused_witness:
  "homing (bullets homingGame ! 0)
   \<and> collideBullet zeroRnd 0 (homingGame\<lparr>players := []\<rparr>)
       = (collideBullet zeroRnd 0 homingGame)\<lparr>players := []\<rparr>
   \<and> rngPos (collideBullet zeroRnd 0 homingGame) = rngPos homingGame
   \<and> areaDamageHits (collideBullet zeroRnd 0 homingGame) = areaDamageHits homingGame"
  using homing_bullet_owner_unused [of 1 meleePlayer nearBall homingGame 0 zeroRnd "[]"]
  by (simp add: homingGame_def demoGame_def homingBullet_def)

text \<open>
  C9 as it is written fails: the tick of a player with the melee upgrade and a ball
  in range creates a homing bullet owned by that player, player 1.
\<close>

theorem homing_bullet_has_owner:
  "homing (last (bullets (gameTick zeroRnd 0 0 meleeGame)))
   \<and> ownerId (last (bullets (gameTick zeroRnd 0 0 meleeGame))) = Some 1"
  by (simp add: tick_defs const_defs demo_defs Let_def nearestBall_def hypot_less_iff
        homingBullet_def)

text \<open>
  A homing bullet that hits: the ball loses the bullet's damage of 1 although the player
  has a critical chance of 100, and the bullet is marked for removal.
\<close>

lemma homing_hit_example:
  "map hp (balls (collideBullet zeroRnd 0
      (homingGame\<lparr>players := [meleePlayer\<lparr>criticalChance := 100\<rparr>]\<rparr>))) = [19]
   \<and> toRemoveBullets (collideBullet zeroRnd 0
        (homingGame\<lparr>players := [meleePlayer\<lparr>criticalChance := 100\<rparr>]\<rparr>)) = [1]"
proof -
  have s: "sqrt 10000 = 100" by (rule real_sqrt_unique) simp_all
  show ?thesis
    by (simp add: collideBullet_def hitBall_homing damageStep_def markBall_def markBullet_def
          modBall_def bulletHitsBall_def pointToSegmentDist_def hypot_def s Let_def
          map_get_def homingBullet_def set_add_def demo_defs const_defs
          hypot_le_const_iff [unfolded hypot_def])
qed

subsection \<open>Swept collision\<close>





















lemma onlyAt_length: "onlyAt i xs ys \<Longrightarrow> length ys = length xs"
  unfolding onlyAt_def by auto


























text \<open>
  The movement of the tick (lines 256--259) takes a tested bullet to \<open>advance\<close> of its
  movement vector.
\<close>

lemma bullets_hitBall: "bullets (hitBall rnd b mx my d owner i s) = bullets s"
proof -
  have a: "bullets (areaHit c e j t) = bullets t" for c e j t
    by (simp add: areaHit_def Let_def markBall_def)
  have "bullets (areaStep b owner i t) = bullets t" for t
    by (simp add: areaStep_def Let_def foldl_keep a)
  then show ?thesis
    by (simp add: hitBall_def Let_def spendStep_def igniteStep_def pushStep_def damageStep_def
          markBall_def markBullet_def modBall_def drawn_def)
qed

lemma moved_is_advance:
  assumes "k < length (bullets s)" and "movementOf s (bullets s ! k) = Some (mx, my)"
  shows "moveBullet (bullets (collideBullet rnd k s) ! k) = advance mx my (bullets s ! k)"
proof -
  have "bullets (foldl (\<lambda>t i. hitBall rnd b mx' my' d owner i t) s xs) = bullets s"
    for b mx' my' d owner xs
    by (rule foldl_keep) (rule bullets_hitBall)
  then show ?thesis
    using assms
    by (auto simp add: collideBullet_def movementOf_def advance_def Let_def
          split: option.splits if_splits)
qed









subsection \<open>Interpolation and extrapolation on the client\<close>

lemma findBracket_first:
  assumes "Suc i < length buf"
    and "snap_time (buf ! i) \<le> r" and "r \<le> snap_time (buf ! Suc i)"
    and "\<forall>k < i. \<not> (snap_time (buf ! k) \<le> r \<and> r \<le> snap_time (buf ! Suc k))"
  shows "findBracket r buf n = Some (n + i, n + i + 1)"
  using assms
proof (induction i arbitrary: buf n)
  case 0
  then obtain a b rest where "buf = a # b # rest"
    by (metis One_nat_def Suc_lessD length_Suc_conv_rev length_greater_0_conv list.exhaust
          list.size(3) not_less_eq less_nat_zero_code length_Cons)
  with 0 show ?case by simp
next
  case (Suc i)
  then obtain a b rest where buf: "buf = a # b # rest"
    by (cases buf; cases "tl buf") auto
  from Suc.prems(4) have "\<not> (snap_time (buf ! 0) \<le> r \<and> r \<le> snap_time (buf ! Suc 0))"
    by blast
  then have step: "findBracket r buf n = findBracket r (b # rest) (n + 1)"
    by (auto simp add: buf)
  have "findBracket r (b # rest) (n + 1) = Some (n + 1 + i, n + 1 + i + 1)"
  proof (rule Suc.IH)
    show "Suc i < length (b # rest)" using Suc.prems(1) by (simp add: buf)
    show "snap_time ((b # rest) ! i) \<le> r" using Suc.prems(2) by (simp add: buf)
    show "r \<le> snap_time ((b # rest) ! Suc i)" using Suc.prems(3) by (simp add: buf)
    show "\<forall>k<i. \<not> (snap_time ((b # rest) ! k) \<le> r \<and> r \<le> snap_time ((b # rest) ! Suc k))"
      using Suc.prems(4) by (auto simp add: buf)
  qed
  with step show ?case by simp
qed

lemma lerp_convex: "lerp a b f = (1 - f) * a + f * b"
  by (simp add: lerp_def algebra_simps)

lemma lerped_interpolated:
  "spec_interpolated old new f (map (\<lambda>b. lerpEntity (map_get old (ent_id b)) b f) new)"
  by (simp add: spec_interpolated_def lerpEntity_def lerp_convex split: option.splits)

lemma extrapolate_extrapolated:
  "spec_extrapolated elapsed newest (map (extrapolate elapsed) newest)"
  by (auto simp add: spec_extrapolated_def extrapolate_def velocityX_def velocityY_def Let_def
        PX_PER_MS_BULLET_def SERVER_TICK_MS_def BULLET_SPEED_def)

text \<open>
  C7. Let the entries at positions \<open>i\<close> and \<open>i + 1\<close> of the buffer be the first adjacent
  pair whose receipt times \<open>t0\<close> and \<open>t1\<close> bracket the render time
  \<open>r = now - INTERP_DELAY_MS\<close>. Then a state is returned in which every player and every
  ball of the newer entry that is also in the older one is shown at the linear
  interpolation of its two positions at the fraction \<open>(r - t0) / (t1 - t0)\<close> clamped to
  \<open>[0, 1]\<close> (for \<open>t0 = t1\<close> the code divides by 1 and the fraction is 0 on both sides),
  and in which the bullets are those of the newest entry: the homing ones as reported,
  the others moved on by their known or default velocity for the time since that entry
  was received.
\<close>

theorem rendered_state:
  assumes "Suc i < length buf"
    and "snap_time (buf ! i) \<le> now - INTERP_DELAY_MS"
    and "now - INTERP_DELAY_MS \<le> snap_time (buf ! Suc i)"
    and "\<forall>k < i. \<not> (snap_time (buf ! k) \<le> now - INTERP_DELAY_MS
                    \<and> now - INTERP_DELAY_MS \<le> snap_time (buf ! Suc k))"
  shows "\<exists>st. getInterpolatedState now buf = Some st
     \<and> spec_interpolated (c_players (snap_state (buf ! i))) (c_players (snap_state (buf ! Suc i)))
         (min 1 (max 0 ((now - INTERP_DELAY_MS - snap_time (buf ! i))
                         / (snap_time (buf ! Suc i) - snap_time (buf ! i)))))
         (c_players st)
     \<and> spec_interpolated (c_balls (snap_state (buf ! i))) (c_balls (snap_state (buf ! Suc i)))
         (min 1 (max 0 ((now - INTERP_DELAY_MS - snap_time (buf ! i))
                         / (snap_time (buf ! Suc i) - snap_time (buf ! i)))))
         (c_balls st)
     \<and> spec_extrapolated (now - snap_time (last buf)) (c_bullets (snap_state (last buf)))
         (c_bullets st)"
proof -
  let ?r = "now - INTERP_DELAY_MS"
  let ?t0 = "snap_time (buf ! i)" and ?t1 = "snap_time (buf ! Suc i)"
  let ?f = "min 1 (max 0 ((?r - ?t0) / (?t1 - ?t0)))"
  have br: "findBracket ?r buf 0 = Some (i, Suc i)"
    using findBracket_first [OF assms, of 0] by simp
  have ne: "buf \<noteq> []" using assms(1) by auto
  have f: "(if ?t1 - ?t0 = 0 then 1 else ?t1 - ?t0) = ?t1 - ?t0 \<or> ?r - ?t0 = 0"
    using assms(2,3) by auto
  have alpha: "min 1 (max 0 ((?r - ?t0) / (if ?t1 - ?t0 = 0 then 1 else ?t1 - ?t0))) = ?f"
    using f by auto
  let ?st = "(lerpState (Some (snap_state (buf ! i))) (snap_state (buf ! Suc i)) ?f)
               \<lparr>c_bullets := map (extrapolate (now - snap_time (last buf)))
                               (c_bullets (snap_state (last buf)))\<rparr>"
  have "getInterpolatedState now buf
          = Some ((lerpState (Some (snap_state (buf ! i))) (snap_state (buf ! Suc i))
                    (min 1 (max 0 ((?r - ?t0) / (if ?t1 - ?t0 = 0 then 1 else ?t1 - ?t0)))))
               \<lparr>c_bullets := map (extrapolate (now - snap_time (last buf)))
                               (c_bullets (snap_state (last buf)))\<rparr>)"
    using ne by (simp add: getInterpolatedState_def br Let_def last_conv_nth
                   split del: if_split)
  then have g: "getInterpolatedState now buf = Some ?st"
    unfolding alpha .
  have cp: "c_players ?st
      = map (\<lambda>b. lerpEntity (map_get (c_players (snap_state (buf ! i))) (ent_id b)) b ?f)
          (c_players (snap_state (buf ! Suc i)))"
    by (simp add: lerpState_def)
  have cb: "c_balls ?st
      = map (\<lambda>b. lerpEntity (map_get (c_balls (snap_state (buf ! i))) (ent_id b)) b ?f)
          (c_balls (snap_state (buf ! Suc i)))"
    by (simp add: lerpState_def)
  have cu: "c_bullets ?st = map (extrapolate (now - snap_time (last buf)))
                               (c_bullets (snap_state (last buf)))"
    by simp
  have p: "spec_interpolated (c_players (snap_state (buf ! i)))
             (c_players (snap_state (buf ! Suc i))) ?f (c_players ?st)"
    unfolding cp by (rule lerped_interpolated)
  have b: "spec_interpolated (c_balls (snap_state (buf ! i)))
             (c_balls (snap_state (buf ! Suc i))) ?f (c_balls ?st)"
    unfolding cb by (rule lerped_interpolated)
  have u: "spec_extrapolated (now - snap_time (last buf)) (c_bullets (snap_state (last buf)))
             (c_bullets ?st)"
    unfolding cu by (rule extrapolate_extrapolated)
  from g p b u show ?thesis by (intro exI [of _ ?st] conjI)
qed

theorem rendered_state_witness:
  "Suc 0 < length demoBuffer
   \<and> snap_time (demoBuffer ! 0) \<le> 220 - INTERP_DELAY_MS
   \<and> 220 - INTERP_DELAY_MS \<le> snap_time (demoBuffer ! Suc 0)
   \<and> (\<exists>st. getInterpolatedState 220 demoBuffer = Some st
        \<and> spec_interpolated (c_players oldState) (c_players newState) (7 / 10) (c_players st)
        \<and> spec_interpolated (c_balls oldState) (c_balls newState) (7 / 10) (c_balls st)
        \<and> spec_extrapolated 20 (c_bullets newState) (c_bullets st))"
  using rendered_state [of 0 demoBuffer 220]
  by (simp add: demoBuffer_def INTERP_DELAY_MS_def)

lemma rendered_example:
  "map_option (\<lambda>st. (map ent_x (c_players st), map ent_y (c_balls st), map ent_y (c_bullets st)))
     (getInterpolatedState 220 demoBuffer)
   = Some ([1744 / 5], [11049 / 10], [2355 / 2, 1200])"
  by (simp add: getInterpolatedState_def demoBuffer_def INTERP_DELAY_MS_def Let_def
        lerpState_def lerpEntity_def lerp_def map_get_def oldState_def newState_def
        viewPlayer_def viewBall_def ball.defs extrapolate_def upBullet_def newBullet_def
        homingBullet_def demo_defs PX_PER_MS_BULLET_def SERVER_TICK_MS_def BULLET_SPEED_def BULLET_RADIUS_def)

subsection \<open>Reset\<close>

text \<open>
  C6. After a reset the phase is playing, the wave is 1, the lives are the initial 10,
  there are no bullets and no balls, the same players are connected, and each of them has
  all chances, levels, melee damage and bounce count 0, bullet count 1 and no offered
  cards.
\<close>

theorem resetGame_defaults:
  "gamePhase (resetGame s) = Playing \<and> wave (resetGame s) = 1
   \<and> lives (resetGame s) = INITIAL_LIVES \<and> INITIAL_LIVES = 10
   \<and> bullets (resetGame s) = [] \<and> balls (resetGame s) = []
   \<and> map ent_id (players (resetGame s)) = map ent_id (players s)
   \<and> list_all (\<lambda>p. criticalChance p = 0 \<and> pierceChance p = 0 \<and> areaDamageLevel p = 0
        \<and> pusherChance p = 0 \<and> ignitionChance p = 0 \<and> meleeDamage p = 0
        \<and> bounceCount p = 0 \<and> bulletCount p = 1 \<and> offeredCards p = None)
       (players (resetGame s))"
  by (simp add: resetGame_def resetPlayer_def INITIAL_LIVES_def list_all_iff comp_def)

end
